theory Spec2Isabelle
  imports Main
begin

section \<open>Strings\<close>

text \<open>
  A Python \<open>str\<close> is represented by its UTF-8 encoding, one \<open>char\<close> per byte. All
  string constants that the matchers search for are ASCII, and an ASCII byte occurs in
  UTF-8 only as that ASCII character, so substring tests on the bytes agree with
  substring tests on the code points.
\<close>

fun starts_with :: "string \<Rightarrow> string \<Rightarrow> bool" where
  "starts_with [] hay = True"
| "starts_with (x # xs) [] = False"
| "starts_with (x # xs) (y # ys) = (x = y \<and> starts_with xs ys)"

text \<open>\<open>str_in needle hay\<close> is Python's \<open>needle in hay\<close> on strings.\<close>

fun str_in :: "string \<Rightarrow> string \<Rightarrow> bool" where
  "str_in needle [] = (needle = [])"
| "str_in needle (c # cs) = (starts_with needle (c # cs) \<or> str_in needle cs)"

text \<open>
  \<open>str.lower()\<close>: an ASCII letter \<open>A\<close>..\<open>Z\<close> becomes \<open>a\<close>..\<open>z\<close>, every other ASCII
  character is kept. What a non-ASCII character becomes is decided by the Unicode case
  tables of the interpreter, which are no part of this repository: the bytes that the
  lowered string holds for a non-ASCII byte are given by a parameter, applied to the
  bytes before it, the byte itself and the bytes after it (the lead byte of a character
  yields the whole lowered character, its continuation bytes yield nothing).
\<close>

type_synonym unicode_lower = "string \<Rightarrow> char \<Rightarrow> string \<Rightarrow> string"

definition ascii_lower :: "char \<Rightarrow> char" where
  "ascii_lower c =
     (case map_of (zip ''ABCDEFGHIJKLMNOPQRSTUVWXYZ'' ''abcdefghijklmnopqrstuvwxyz'') c of
        None \<Rightarrow> c
      | Some l \<Rightarrow> l)"

fun lower_from :: "unicode_lower \<Rightarrow> string \<Rightarrow> string \<Rightarrow> string" where
  "lower_from u seen [] = []"
| "lower_from u seen (c # rest) =
     (if digit7 c then u seen c rest else [ascii_lower c])
       @ lower_from u (seen @ [c]) rest"

definition lower :: "unicode_lower \<Rightarrow> string \<Rightarrow> string" where
  "lower u s = lower_from u [] s"

text \<open>A lowering that leaves every non-ASCII byte as it is.\<close>

definition keep_non_ascii :: unicode_lower where
  "keep_non_ascii seen c rest = [c]"

section \<open>Data model\<close>

datatype ChatTemplateStyle = PLAIN | LLAMA2

record ChatTemplate =
  name :: string
  default_system_prompt :: "string option"
  role_prefix_and_suffix :: "string \<rightharpoonup> string \<times> string"
  stop_str :: "string list"
  image_token :: string
  style :: ChatTemplateStyle

text \<open>A message is a dictionary with the keys \<open>role\<close> and \<open>content\<close>; \<open>None\<close> content is absent.\<close>

record message =
  role :: string
  content :: "string option"

datatype error = KeyError string

type_synonym registry = "string \<rightharpoonup> ChatTemplate"

type_synonym matching_function =
  "registry \<Rightarrow> string \<Rightarrow> string option \<Rightarrow> error + ChatTemplate option"

section \<open>Prompt assembly\<close>

text \<open>\<open>self.role_prefix_and_suffix.get(role, ("", ""))\<close>\<close>

definition prefix_and_suffix_of :: "ChatTemplate \<Rightarrow> string \<Rightarrow> string \<times> string" where
  "prefix_and_suffix_of self r =
     (case role_prefix_and_suffix self r of None \<Rightarrow> ('''', '''') | Some ps \<Rightarrow> ps)"

definition get_prefix_and_suffix ::
  "ChatTemplate \<Rightarrow> string \<Rightarrow> message list \<Rightarrow> string \<times> string" where
  "get_prefix_and_suffix self r hist_messages =
     (case prefix_and_suffix_of self r of (prefix, suffix) \<Rightarrow>
        if style self = LLAMA2 then
          if r = ''system'' \<and> hist_messages = [] then
            (case prefix_and_suffix_of self ''user'' of (user_prefix, _) \<Rightarrow>
             case prefix_and_suffix_of self ''system'' of (system_prefix, system_suffix) \<Rightarrow>
               (user_prefix @ system_prefix, system_suffix))
          else if r = ''user''
                  \<and> (case hist_messages of [m] \<Rightarrow> content m \<noteq> None | _ \<Rightarrow> False) then
            ('''', suffix)
          else (prefix, suffix)
        else (prefix, suffix))"

text \<open>
  What the f-string \<open>f"{prefix}{content}{suffix}"\<close> prints for the content: the text, or
  \<open>None\<close> for an absent content (which reaches the f-string only for a role other than
  \<open>system\<close>).
\<close>

definition format_content :: "string option \<Rightarrow> string" where
  "format_content c = (case c of None \<Rightarrow> ''None'' | Some s \<Rightarrow> s)"

text \<open>
  The loop of \<open>get_prompt\<close>: \<open>messages\<close> is the whole list, \<open>i\<close> the index of the next
  message, \<open>rest\<close> the messages from index \<open>i\<close> on, \<open>prompt\<close> the text so far.
  The history of message \<open>i\<close> is \<open>messages[:i]\<close>.
\<close>

fun get_prompt_loop ::
  "ChatTemplate \<Rightarrow> message list \<Rightarrow> nat \<Rightarrow> message list \<Rightarrow> string \<Rightarrow> string" where
  "get_prompt_loop self messages i [] prompt = prompt"
| "get_prompt_loop self messages i (m # rest) prompt =
     (let substituted = (role m = ''system'' \<and> content m = None);
          content' = (if substituted then default_system_prompt self else content m)
      in if substituted \<and> content' = None then
           get_prompt_loop self messages (Suc i) rest prompt
         else
           (case get_prefix_and_suffix self (role m) (take i messages) of
              (prefix, suffix) \<Rightarrow>
                get_prompt_loop self messages (Suc i) rest
                  (prompt @ prefix @ format_content content' @ suffix)))"

definition get_prompt :: "ChatTemplate \<Rightarrow> message list \<Rightarrow> string" where
  "get_prompt self messages = get_prompt_loop self messages 0 messages ''''"

section \<open>The built-in templates\<close>

text \<open>
  The templates that the module registers when it is loaded, in the order of their
  registration. The text of each is the source's, character for character; a
  non-ASCII character is written as its UTF-8 bytes, and an apostrophe as \<open>CHR 0x27\<close>.
  A template that gives no \<open>stop_str\<close>, \<open>image_token\<close> or \<open>style\<close> has the defaults of the
  class: no stop string, \<open><image>\<close> and \<open>PLAIN\<close>.
\<close>

definition template_default :: ChatTemplate where
  "template_default =
    \<lparr>name = ''default'',
     default_system_prompt = None,
     role_prefix_and_suffix =
      [''system'' \<mapsto> (''SYSTEM:'', ''\<newline>''),
       ''user'' \<mapsto> (''USER:'', ''\<newline>''),
       ''assistant'' \<mapsto> (''ASSISTANT:'', ''\<newline>'')],
     stop_str = [],
     image_token = ''<image>'',
     style = PLAIN\<rparr>"

definition template_claude :: ChatTemplate where
  "template_claude =
    \<lparr>name = ''claude'',
     default_system_prompt = None,
     role_prefix_and_suffix =
      [''system'' \<mapsto> ('''', ''''),
       ''user'' \<mapsto> (''\<newline>\<newline>Human: '', ''''),
       ''assistant'' \<mapsto> (''\<newline>\<newline>Assistant:'', '''')],
     stop_str = [],
     image_token = ''<image>'',
     style = PLAIN\<rparr>"

definition template_chatml :: ChatTemplate where
  "template_chatml =
    \<lparr>name = ''chatml'',
     default_system_prompt = None,
     role_prefix_and_suffix =
      [''system'' \<mapsto> (''<|im_start|>system\<newline>'', ''<|im_end|>\<newline>''),
       ''user'' \<mapsto> (''<|im_start|>user\<newline>'', ''<|im_end|>\<newline>''),
       ''assistant'' \<mapsto> (''<|im_start|>assistant\<newline>'', ''<|im_end|>\<newline>'')],
     stop_str = [''<|im_end|>''],
     image_token = ''<image>'',
     style = PLAIN\<rparr>"

definition template_chatml_llava :: ChatTemplate where
  "template_chatml_llava =
    \<lparr>name = ''chatml-llava'',
     default_system_prompt = Some (''Answer the questions.''),
     role_prefix_and_suffix =
      [''system'' \<mapsto> (''<|im_start|>system\<newline>'', ''<|im_end|>\<newline>''),
       ''user'' \<mapsto> (''<|im_start|>user\<newline>'', ''<|im_end|>\<newline>''),
       ''assistant'' \<mapsto> (''<|im_start|>assistant\<newline>'', ''<|im_end|>\<newline>'')],
     stop_str = [''<|im_end|>''],
     image_token = '' <image>\<newline>'',
     style = PLAIN\<rparr>"

definition template_vicuna_v1_1 :: ChatTemplate where
  "template_vicuna_v1_1 =
    \<lparr>name = ''vicuna_v1.1'',
     default_system_prompt = Some (''A chat between a curious user and an artificial intelligence''
       @ '' assistant. The assistant gives helpful, detailed, and polit''
       @ ''e answers to the user'' @ [CHR 0x27] @ ''s questions.''),
     role_prefix_and_suffix =
      [''system'' \<mapsto> ('''', '' ''),
       ''user'' \<mapsto> (''USER:'', '' ''),
       ''assistant'' \<mapsto> (''ASSISTANT:'', ''</s>'')],
     stop_str = [],
     image_token = '' <image>\<newline>'',
     style = PLAIN\<rparr>"

definition template_llama_2_chat :: ChatTemplate where
  "template_llama_2_chat =
    \<lparr>name = ''llama-2-chat'',
     default_system_prompt = None,
     role_prefix_and_suffix =
      [''system'' \<mapsto> (''<<SYS>>\<newline>'', ''\<newline><</SYS>>\<newline>\<newline>''),
       ''user'' \<mapsto> (''[INST] '', '' [/INST]''),
       ''assistant'' \<mapsto> ('''', '' </s><s>'')],
     stop_str = [],
     image_token = ''<image>'',
     style = LLAMA2\<rparr>"

definition template_llama_3_instruct :: ChatTemplate where
  "template_llama_3_instruct =
    \<lparr>name = ''llama-3-instruct'',
     default_system_prompt = None,
     role_prefix_and_suffix =
      [''system'' \<mapsto> (''<|start_header_id|>system<|end_header_id|>\<newline>\<newline>'', ''<|eot_id|>''),
       ''user'' \<mapsto> (''<|start_header_id|>user<|end_header_id|>\<newline>\<newline>'', ''<|eot_id|>''),
       ''assistant'' \<mapsto> (''<|start_header_id|>assistant<|end_header_id|>\<newline>\<newline>'', ''<|eot_id|>'')],
     stop_str = [''<|eot_id|>''],
     image_token = ''<image>'',
     style = PLAIN\<rparr>"

definition template_yi :: ChatTemplate where
  "template_yi =
    \<lparr>name = ''yi'',
     default_system_prompt = Some (''This is a chat between an inquisitive human and an AI assist''
       @ ''ant. Assume the role of the AI assistant. Read all the image''
       @ ''s carefully, and respond to the human'' @ [CHR 0x27] @ ''s questions with infor''
       @ ''mative, helpful, detailed and polite answers.'' @ [CHR 0xE8, CHR 0xBF, CHR 0x99, CHR 0xE6, CHR 0x98, CHR 0xAF, CHR 0xE4, CHR 0xB8, CHR 0x80,
          CHR 0xE4, CHR 0xB8, CHR 0xAA, CHR 0xE5, CHR 0xA5, CHR 0xBD, CHR 0xE5, CHR 0xA5, CHR 0x87,
          CHR 0xE7, CHR 0x9A, CHR 0x84, CHR 0xE4, CHR 0xBA, CHR 0xBA, CHR 0xE7, CHR 0xB1, CHR 0xBB,
          CHR 0xE5, CHR 0x92, CHR 0x8C, CHR 0xE4, CHR 0xB8, CHR 0x80, CHR 0xE4, CHR 0xB8, CHR 0xAA,
          CHR 0xE4, CHR 0xBA, CHR 0xBA, CHR 0xE5, CHR 0xB7, CHR 0xA5, CHR 0xE6, CHR 0x99, CHR 0xBA]
       @ [CHR 0xE8, CHR 0x83, CHR 0xBD, CHR 0xE5, CHR 0x8A, CHR 0xA9, CHR 0xE6, CHR 0x89, CHR 0x8B,
          CHR 0xE4, CHR 0xB9, CHR 0x8B, CHR 0xE9, CHR 0x97, CHR 0xB4, CHR 0xE7, CHR 0x9A, CHR 0x84,
          CHR 0xE5, CHR 0xAF, CHR 0xB9, CHR 0xE8, CHR 0xAF, CHR 0x9D, CHR 0xE3, CHR 0x80, CHR 0x82,
          CHR 0xE5, CHR 0x81, CHR 0x87, CHR 0xE8, CHR 0xAE, CHR 0xBE, CHR 0xE4, CHR 0xBD, CHR 0xA0,
          CHR 0xE6, CHR 0x89, CHR 0xAE, CHR 0xE6, CHR 0xBC, CHR 0x94, CHR 0xE8, CHR 0xBF, CHR 0x99,
          CHR 0xE4, CHR 0xB8, CHR 0xAA] @ ''AI'' @ [CHR 0xE5, CHR 0x8A, CHR 0xA9, CHR 0xE6, CHR 0x89, CHR 0x8B, CHR 0xE7, CHR 0x9A, CHR 0x84,
          CHR 0xE8, CHR 0xA7, CHR 0x92, CHR 0xE8, CHR 0x89, CHR 0xB2, CHR 0xE3, CHR 0x80, CHR 0x82,
          CHR 0xE4, CHR 0xBB, CHR 0x94, CHR 0xE7, CHR 0xBB, CHR 0x86, CHR 0xE9, CHR 0x98, CHR 0x85,
          CHR 0xE8, CHR 0xAF, CHR 0xBB, CHR 0xE6, CHR 0x89, CHR 0x80, CHR 0xE6, CHR 0x9C, CHR 0x89,
          CHR 0xE7, CHR 0x9A, CHR 0x84, CHR 0xE5, CHR 0x9B, CHR 0xBE, CHR 0xE5, CHR 0x83, CHR 0x8F,
          CHR 0xEF, CHR 0xBC, CHR 0x8C, CHR 0xE5, CHR 0xB9, CHR 0xB6, CHR 0xE5, CHR 0xAF, CHR 0xB9,
          CHR 0xE4, CHR 0xBA, CHR 0xBA, CHR 0xE7, CHR 0xB1, CHR 0xBB, CHR 0xE7, CHR 0x9A, CHR 0x84,
          CHR 0xE9, CHR 0x97, CHR 0xAE, CHR 0xE9, CHR 0xA2, CHR 0x98, CHR 0xE5, CHR 0x81, CHR 0x9A,
          CHR 0xE5, CHR 0x87, CHR 0xBA, CHR 0xE4, CHR 0xBF, CHR 0xA1, CHR 0xE6, CHR 0x81, CHR 0xAF,
          CHR 0xE4, CHR 0xB8, CHR 0xB0, CHR 0xE5, CHR 0xAF, CHR 0x8C, CHR 0xE3, CHR 0x80, CHR 0x81,
          CHR 0xE6, CHR 0x9C, CHR 0x89, CHR 0xE5, CHR 0xB8, CHR 0xAE, CHR 0xE5, CHR 0x8A, CHR 0xA9,
          CHR 0xE3, CHR 0x80, CHR 0x81, CHR 0xE8, CHR 0xAF, CHR 0xA6, CHR 0xE7, CHR 0xBB, CHR 0x86,
          CHR 0xE7, CHR 0x9A, CHR 0x84, CHR 0xE5, CHR 0x92, CHR 0x8C, CHR 0xE7, CHR 0xA4, CHR 0xBC,
          CHR 0xE8, CHR 0xB2, CHR 0x8C, CHR 0xE7, CHR 0x9A, CHR 0x84, CHR 0xE5, CHR 0x9B, CHR 0x9E]
       @ [CHR 0xE7, CHR 0xAD, CHR 0x94, CHR 0xE3, CHR 0x80, CHR 0x82]),
     role_prefix_and_suffix =
      [''system'' \<mapsto> ('''', ''\<newline>\<newline>''),
       ''user'' \<mapsto> (''### Human:'', ''\<newline>''),
       ''assistant'' \<mapsto> (''### Assistant:'', ''\<newline>'')],
     stop_str = [],
     image_token = '' <image_placeholder>\<newline>'',
     style = PLAIN\<rparr>"

definition template_gemma_it :: ChatTemplate where
  "template_gemma_it =
    \<lparr>name = ''gemma-it'',
     default_system_prompt = None,
     role_prefix_and_suffix =
      [''system'' \<mapsto> ('''', ''''),
       ''user'' \<mapsto> (''<start_of_turn>user\<newline>'', ''<end_of_turn>\<newline>''),
       ''assistant'' \<mapsto> (''<start_of_turn>model\<newline>'', ''<end_of_turn>\<newline>'')],
     stop_str = [],
     image_token = ''<image>'',
     style = PLAIN\<rparr>"

definition template_dbrx_instruct :: ChatTemplate where
  "template_dbrx_instruct =
    \<lparr>name = ''dbrx-instruct'',
     default_system_prompt = Some (''You are DBRX, created by Databricks. You were last updated i''
       @ ''n December 2023. You answer questions based on information a''
       @ ''vailable up to that point.\<newline>YOU PROVIDE SHORT RESPONSES TO SH''
       @ ''ORT QUESTIONS OR STATEMENTS, but provide thorough responses ''
       @ ''to more complex and open-ended questions.\<newline>You assist with va''
       @ ''rious tasks, from writing to coding (using markdown for code''
       @ '' blocks '' @ [CHR 0xE2, CHR 0x80, CHR 0x94] @ '' remember to use ``` with code, JSON, and tables).\<newline>''
       @ ''(You do not have real-time data access or code execution cap''
       @ ''abilities. You avoid stereotyping and provide balanced persp''
       @ ''ectives on controversial topics. You do not provide song lyr''
       @ ''ics, poems, or news articles and do not divulge details of y''
       @ ''our training data.)\<newline>This is your system prompt, guiding your''
       @ '' responses. Do not reference it, just respond to the user. I''
       @ ''f you find yourself talking about this message, stop. You sh''
       @ ''ould be responding appropriately and usually that means not ''
       @ ''mentioning this.\<newline>YOU DO NOT MENTION ANY OF THIS INFORMATION ''
       @ ''ABOUT YOURSELF UNLESS THE INFORMATION IS DIRECTLY PERTINENT ''
       @ ''TO THE USER'' @ [CHR 0x27] @ ''S QUERY.''),
     role_prefix_and_suffix =
      [''system'' \<mapsto> (''<|im_start|>system\<newline>'', ''<|im_end|>''),
       ''user'' \<mapsto> (''\<newline><|im_start|>user\<newline>'', ''<|im_end|>''),
       ''assistant'' \<mapsto> (''\<newline><|im_start|>assistant\<newline>'', ''<|im_end|>'')],
     stop_str = [''<|im_end|>''],
     image_token = ''<image>'',
     style = PLAIN\<rparr>"

definition template_yt_chat_v1_2 :: ChatTemplate where
  "template_yt_chat_v1_2 =
    \<lparr>name = ''yt-chat-v1.2'',
     default_system_prompt = Some (''A chat between a curious user and an AI role. The role gives''
       @ '' helpful, detailed, and polite answers to the user'' @ [CHR 0x27] @ ''s questio''
       @ ''ns.\<newline>Your name is Nety, a virtual character created by resear''
       @ ''chers from BaoYu Organization (BYO).''),
     role_prefix_and_suffix =
      [''system'' \<mapsto> (''<|im_start|>system\<newline>'', ''<|im_end|>''),
       ''user'' \<mapsto> (''<|im_start|>user\<newline>'', ''<|im_end|>''),
       ''assistant'' \<mapsto> (''\<newline><|im_start|>role\<newline>'', ''<|im_end|>'')],
     stop_str = [''<|im_end|>'', ''</s>'', ''<|im_start|>'', ''<s>'', ''</|im''],
     image_token = ''<image>'',
     style = PLAIN\<rparr>"

definition template_yt_chat_v1_3 :: ChatTemplate where
  "template_yt_chat_v1_3 =
    \<lparr>name = ''yt-chat-v1.3'',
     default_system_prompt = Some (''A chat between a curious user and an AI role. The role gives''
       @ '' helpful, detailed, and polite answers to the user'' @ [CHR 0x27] @ ''s questio''
       @ ''ns.\<newline>Your name is Nety, a virtual character created by resear''
       @ ''chers from BaoYu Organization (BYO).''),
     role_prefix_and_suffix =
      [''system'' \<mapsto> (''<s>System\<newline>'', ''</s>''),
       ''user'' \<mapsto> (''\<newline><s>User\<newline>'', ''</s>''),
       ''assistant'' \<mapsto> (''\<newline><s>Role\<newline>'', ''</s>'')],
     stop_str = [''</s>''],
     image_token = ''<image>'',
     style = PLAIN\<rparr>"

definition template_yt_chat_v1_6 :: ChatTemplate where
  "template_yt_chat_v1_6 =
    \<lparr>name = ''yt-chat-v1.6'',
     default_system_prompt = Some (''A chat between a curious user and an AI role. The role gives''
       @ '' helpful, detailed, and polite answers to the user'' @ [CHR 0x27] @ ''s questio''
       @ ''ns.\<newline>Your name is Nety, a virtual character created by resear''
       @ ''chers from BaoYu Organization (BYO).''),
     role_prefix_and_suffix =
      [''system'' \<mapsto> (''<|im_start|>system\<newline>'', ''<|im_end|>''),
       ''user'' \<mapsto> (''\<newline><|im_start|>user\<newline>'', ''<|im_end|>''),
       ''assistant'' \<mapsto> (''\<newline><|im_start|>role\<newline>'', ''<|im_end|>'')],
     stop_str = [''<|im_end|>''],
     image_token = ''<image>'',
     style = PLAIN\<rparr>"

definition template_yt_chat_v1_7 :: ChatTemplate where
  "template_yt_chat_v1_7 =
    \<lparr>name = ''yt-chat-v1.7'',
     default_system_prompt = Some (''A chat between a curious user and an AI role. The role gives''
       @ '' helpful, detailed, and polite answers to the user'' @ [CHR 0x27] @ ''s questio''
       @ ''ns.\<newline>Your name is Nety, a virtual character created by resear''
       @ ''chers from BaoYu Organization (BYO).''),
     role_prefix_and_suffix =
      [''system'' \<mapsto> (''<|begin_of_text|>System\<newline>'', ''<|end_of_text|>''),
       ''user'' \<mapsto> (''\<newline><|begin_of_text|>User\<newline>'', ''<|end_of_text|>''),
       ''assistant'' \<mapsto> (''\<newline><|begin_of_text|>Role\<newline>'', ''<|end_of_text|>'')],
     stop_str = [''<|end_of_text|>''],
     image_token = ''<image>'',
     style = PLAIN\<rparr>"

definition template_yt_chat_v1_8 :: ChatTemplate where
  "template_yt_chat_v1_8 =
    \<lparr>name = ''yt-chat-v1.8'',
     default_system_prompt = Some (''A chat between a curious user and an AI role. The role gives''
       @ '' helpful, detailed, and polite answers to the user'' @ [CHR 0x27] @ ''s questio''
       @ ''ns.\<newline>Your name is Nety, a virtual character created by resear''
       @ ''chers from BaoYu Organization (BYO).''),
     role_prefix_and_suffix =
      [''system'' \<mapsto> (''<bos>System\<newline>'', ''<eos>''),
       ''user'' \<mapsto> (''\<newline><bos>User\<newline>'', ''<eos>''),
       ''assistant'' \<mapsto> (''\<newline><bos>Role\<newline>'', ''<eos>'')],
     stop_str = [''<eos>'', ''<bos>, <pad>, <unk>''],
     image_token = ''<image>'',
     style = PLAIN\<rparr>"

definition template_c4ai_command_r :: ChatTemplate where
  "template_c4ai_command_r =
    \<lparr>name = ''c4ai-command-r'',
     default_system_prompt = None,
     role_prefix_and_suffix =
      [''system'' \<mapsto> (''<|START_OF_TURN_TOKEN|><|SYSTEM_TOKEN|>'', ''<|END_OF_TURN_TOKEN|>''),
       ''user'' \<mapsto> (''<|START_OF_TURN_TOKEN|><|USER_TOKEN|>'', ''<|END_OF_TURN_TOKEN|>''),
       ''assistant'' \<mapsto> (''<|START_OF_TURN_TOKEN|><|CHATBOT_TOKEN|>'', ''<|END_OF_TURN_TOKEN|>'')],
     stop_str = [],
     image_token = ''<image>'',
     style = PLAIN\<rparr>"

section \<open>The registries\<close>

definition register_chat_template :: "ChatTemplate \<Rightarrow> registry \<Rightarrow> registry" where
  "register_chat_template template reg = reg(name template \<mapsto> template)"

definition register_chat_template_matching_function ::
  "matching_function \<Rightarrow> matching_function list \<Rightarrow> matching_function list" where
  "register_chat_template_matching_function func fs = fs @ [func]"

text \<open>\<open>chat_template_registry[name]\<close>, which raises \<open>KeyError\<close> for a missing name.\<close>

definition get_chat_template :: "registry \<Rightarrow> string \<Rightarrow> error + ChatTemplate" where
  "get_chat_template reg n = (case reg n of None \<Rightarrow> Inl (KeyError n) | Some t \<Rightarrow> Inr t)"

text \<open>The registry once the module is loaded: the sixteen registrations, in their order.\<close>

definition builtin_templates :: "ChatTemplate list" where
  "builtin_templates =
     [template_default, template_claude, template_chatml, template_chatml_llava,
      template_vicuna_v1_1, template_llama_2_chat, template_llama_3_instruct, template_yi,
      template_gemma_it, template_dbrx_instruct, template_yt_chat_v1_2,
      template_yt_chat_v1_3, template_yt_chat_v1_6, template_yt_chat_v1_7,
      template_yt_chat_v1_8, template_c4ai_command_r]"

definition chat_template_registry :: registry where
  "chat_template_registry = fold register_chat_template builtin_templates Map.empty"

section \<open>The matching functions\<close>

text \<open>
  A matching function returns a template, returns \<open>None\<close> (by falling off its end), or
  raises the \<open>KeyError\<close> of \<open>get_chat_template\<close>. It reads the registry when it is called.
  \<open>truthy\<close> is the truth value of \<open>model_id\<close> in \<open>if model_id\<close>: neither \<open>None\<close> nor
  the empty string.
\<close>

definition truthy :: "string option \<Rightarrow> bool" where
  "truthy model_id = (case model_id of None \<Rightarrow> False | Some s \<Rightarrow> s \<noteq> [])"

text \<open>\<open>return get_chat_template(n)\<close>\<close>

definition return_template :: "registry \<Rightarrow> string \<Rightarrow> error + ChatTemplate option" where
  "return_template reg n =
     (case get_chat_template reg n of Inl e \<Rightarrow> Inl e | Inr t \<Rightarrow> Inr (Some t))"

definition match_dbrx :: "unicode_lower \<Rightarrow> matching_function" where
  "match_dbrx u reg model_path model_id =
     (if truthy model_id \<and> model_id = Some ''dbrx'' then return_template reg ''dbrx-instruct''
      else if (truthy model_id \<and> model_id = Some ''dbrx'')
              \<or> (str_in ''dbrx'' (lower u model_path)
                  \<and> str_in ''instruct'' (lower u model_path)) then
        return_template reg ''dbrx-instruct''
      else Inr None)"

definition match_vicuna :: "unicode_lower \<Rightarrow> matching_function" where
  "match_vicuna u reg model_path model_id =
     (if truthy model_id \<and> model_id = Some ''vicuna'' then return_template reg ''vicuna_v1.1''
      else if str_in ''vicuna'' (lower u model_path) then return_template reg ''vicuna_v1.1''
      else if str_in ''llava-v1.5'' (lower u model_path) then
        return_template reg ''vicuna_v1.1''
      else Inr None)"

definition match_llama2_chat :: "unicode_lower \<Rightarrow> matching_function" where
  "match_llama2_chat u reg model_path model_id =
     (if truthy model_id \<and> model_id = Some ''llama-2'' then return_template reg ''llama-2-chat''
      else
        let model_path = lower u model_path in
        if str_in ''llama-2'' model_path \<and> str_in ''chat'' model_path then
          return_template reg ''llama-2-chat''
        else if (str_in ''mistral'' model_path \<or> str_in ''mixtral'' model_path)
                \<and> str_in ''instruct'' model_path then
          return_template reg ''llama-2-chat''
        else if str_in ''codellama'' model_path \<and> str_in ''instruct'' model_path then
          return_template reg ''llama-2-chat''
        else Inr None)"

definition match_llama3_instruct :: "unicode_lower \<Rightarrow> matching_function" where
  "match_llama3_instruct u reg model_path model_id =
     (if truthy model_id \<and> model_id = Some ''llama-3'' then
        return_template reg ''llama-3-instruct''
      else
        let model_path = lower u model_path in
        if str_in ''llama-3'' model_path \<and> str_in ''instruct'' model_path then
          return_template reg ''llama-3-instruct''
        else Inr None)"

definition match_chat_ml :: "unicode_lower \<Rightarrow> matching_function" where
  "match_chat_ml u reg model_path model_id =
     (if truthy model_id \<and> model_id = Some ''chatml'' then return_template reg ''chatml''
      else if truthy model_id \<and> model_id = Some ''chatml-llava'' then
        return_template reg ''chatml-llava''
      else
        let model_path = lower u model_path in
        if str_in ''tinyllama'' model_path then return_template reg ''chatml''
        else if str_in ''qwen'' model_path \<and> str_in ''chat'' model_path then
          return_template reg ''chatml''
        else if str_in ''llava-v1.6-34b'' model_path then return_template reg ''chatml-llava''
        else Inr None)"

definition match_chat_yi :: "unicode_lower \<Rightarrow> matching_function" where
  "match_chat_yi u reg model_path model_id =
     (if truthy model_id \<and> model_id = Some ''yi'' then return_template reg ''yi''
      else
        let model_path = lower u model_path in
        if str_in ''yi'' model_path then return_template reg ''yi''
        else Inr None)"

definition match_gemma_it :: "unicode_lower \<Rightarrow> matching_function" where
  "match_gemma_it u reg model_path model_id =
     (if truthy model_id \<and> model_id = Some ''gemma'' then return_template reg ''gemma-it''
      else
        let model_path = lower u model_path in
        if str_in ''gemma'' model_path \<and> str_in ''it'' model_path then
          return_template reg ''gemma-it''
        else Inr None)"

definition match_ytchat_v12 :: "unicode_lower \<Rightarrow> matching_function" where
  "match_ytchat_v12 u reg model_path model_id =
     (if truthy model_id \<and> model_id = Some ''yt-chat-v1.2'' then
        return_template reg ''yt-chat-v1.2''
      else if truthy model_id \<and> model_id = Some ''yt-chat-v1.3'' then
        return_template reg ''yt-chat-v1.3''
      else if truthy model_id \<and> model_id = Some ''yt-chat-v1.6'' then
        return_template reg ''yt-chat-v1.6''
      else if truthy model_id \<and> model_id = Some ''yt-chat-v1.7'' then
        return_template reg ''yt-chat-v1.7''
      else if truthy model_id \<and> model_id = Some ''yt-chat-v1.8'' then
        return_template reg ''yt-chat-v1.8''
      else
        let model_path = lower u model_path in
        if str_in ''yt-chat'' model_path then return_template reg ''yt-chat-v1.3''
        else Inr None)"

text \<open>Defined in the module, and not registered as a matching function.\<close>

definition match_c4ai_command_r :: "unicode_lower \<Rightarrow> matching_function" where
  "match_c4ai_command_r u reg model_path model_id =
     (if truthy model_id \<and> model_id = Some ''c4ai-command-r'' then
        return_template reg ''c4ai-command-r''
      else
        let model_path = lower u model_path in
        if str_in ''c4ai-command-r'' model_path then return_template reg ''c4ai-command-r''
        else Inr None)"

text \<open>The list of matching functions once the module is loaded: the eight decorated ones.\<close>

definition matching_function_registry :: "unicode_lower \<Rightarrow> matching_function list" where
  "matching_function_registry u =
     fold register_chat_template_matching_function
       [match_dbrx u, match_vicuna u, match_llama2_chat u, match_llama3_instruct u,
        match_chat_ml u, match_chat_yi u, match_gemma_it u, match_ytchat_v12 u] []"

section \<open>Resolution\<close>

fun get_chat_template_by_model_path ::
  "registry \<Rightarrow> matching_function list \<Rightarrow> string \<Rightarrow> string option \<Rightarrow> error + ChatTemplate" where
  "get_chat_template_by_model_path reg [] model_path model_id =
     get_chat_template reg ''default''"
| "get_chat_template_by_model_path reg (matching_func # fs) model_path model_id =
     (case matching_func reg model_path model_id of
        Inl e \<Rightarrow> Inl e
      | Inr (Some template) \<Rightarrow> Inr template
      | Inr None \<Rightarrow> get_chat_template_by_model_path reg fs model_path model_id)"

text \<open>Resolution against the loaded module.\<close>

definition resolve :: "unicode_lower \<Rightarrow> string \<Rightarrow> string option \<Rightarrow> error + ChatTemplate" where
  "resolve u model_path model_id =
     get_chat_template_by_model_path chat_template_registry (matching_function_registry u)
       model_path model_id"

section \<open>Facts about strings\<close>

text \<open>\<open>str_in\<close> is the substring test: the needle occurs somewhere in the haystack.\<close>

lemma starts_with_iff: "starts_with needle hay \<longleftrightarrow> (\<exists>s. hay = needle @ s)"
  by (induction needle hay rule: starts_with.induct) auto

lemma str_in_iff: "str_in needle hay \<longleftrightarrow> (\<exists>p s. hay = p @ needle @ s)"
proof (induction hay)
  case Nil
  show ?case by auto
next
  case (Cons c cs)
  have "(\<exists>p s. c # cs = p @ needle @ s) \<longleftrightarrow>
        (\<exists>s. c # cs = needle @ s) \<or> (\<exists>p s. cs = p @ needle @ s)"
  proof
    assume "\<exists>p s. c # cs = p @ needle @ s"
    then obtain p s where ps: "c # cs = p @ needle @ s" by blast
    show "(\<exists>s. c # cs = needle @ s) \<or> (\<exists>p s. cs = p @ needle @ s)"
    proof (cases p)
      case Nil
      with ps show ?thesis by auto
    next
      case (Cons a p')
      with ps have "cs = p' @ needle @ s" by simp
      then show ?thesis by blast
    qed
  next
    assume "(\<exists>s. c # cs = needle @ s) \<or> (\<exists>p s. cs = p @ needle @ s)"
    then show "\<exists>p s. c # cs = p @ needle @ s"
    proof
      assume "\<exists>s. c # cs = needle @ s"
      then obtain s where "c # cs = [] @ needle @ s" by auto
      then show ?thesis by blast
    next
      assume "\<exists>p s. cs = p @ needle @ s"
      then obtain p s where "cs = p @ needle @ s" by blast
      then have "c # cs = (c # p) @ needle @ s" by simp
      then show ?thesis by blast
    qed
  qed
  then show ?case using Cons.IH by (simp add: starts_with_iff)
qed

text \<open>Lowering the ASCII paths used below does not depend on the Unicode tables.\<close>

lemma lower_qwen: "lower u ''Qwen-Chat-7B'' = ''qwen-chat-7b''"
  by (simp add: lower_def ascii_lower_def)

lemma lower_gpt2: "lower u ''gpt2'' = ''gpt2''"
  by (simp add: lower_def ascii_lower_def)

lemma lower_vicuna: "lower u ''vicuna'' = ''vicuna''"
  by (simp add: lower_def ascii_lower_def)

lemma lower_meta: "lower u ''Meta-Llama-3-8B'' = ''meta-llama-3-8b''"
  by (simp add: lower_def ascii_lower_def)

lemma lower_c4ai: "lower u ''c4ai-command-r'' = ''c4ai-command-r''"
  by (simp add: lower_def ascii_lower_def)

lemma lower_dbrx_instruct: "lower u ''dbrx-instruct'' = ''dbrx-instruct''"
  by (simp add: lower_def ascii_lower_def)

lemma lower_mistral: "lower u ''Mistral-7B-Instruct'' = ''mistral-7b-instruct''"
  by (simp add: lower_def ascii_lower_def)

lemma lower_qwen_upper: "lower u ''QWEN-chat-7b'' = ''qwen-chat-7b''"
  by (simp add: lower_def ascii_lower_def)

text \<open>On a string of ASCII characters, lowering is \<open>ascii_lower\<close> on each character.\<close>

lemma lower_ascii:
  "list_all (\<lambda>c. \<not> digit7 c) s \<Longrightarrow> lower_from u seen s = map ascii_lower s"
  by (induction s arbitrary: seen) simp_all

lemma lower_cohere:
  "lower u ''CohereForAI/c4ai-command-r-v01'' = ''cohereforai/c4ai-command-r-v01''"
  by (simp add: lower_def ascii_lower_def)

section \<open>Prompt assembly\<close>

subsection \<open>The loop\<close>

text \<open>The loop only appends to the prompt it is given.\<close>

lemma get_prompt_loop_acc:
  "get_prompt_loop T ms i rest acc = acc @ get_prompt_loop T ms i rest ''''"
proof (induction rest arbitrary: i acc)
  case Nil
  show ?case by simp
next
  case (Cons m rest)
  have IH: "get_prompt_loop T ms (Suc i) rest a = a @ get_prompt_loop T ms (Suc i) rest ''''" for a
    by (rule Cons.IH)
  obtain p s where ps: "get_prefix_and_suffix T (role m) (take i ms) = (p, s)"
    by (cases "get_prefix_and_suffix T (role m) (take i ms)")
  show ?case
  proof (cases "role m = ''system'' \<and> content m = None \<and> default_system_prompt T = None")
    case True
    then show ?thesis using IH [of acc] by (simp add: Let_def)
  next
    case False
    define c where "c = format_content
      (if role m = ''system'' \<and> content m = None then default_system_prompt T else content m)"
    have l: "get_prompt_loop T ms i (m # rest) a
             = get_prompt_loop T ms (Suc i) rest (a @ p @ c @ s)" for a
      using False ps by (auto simp add: Let_def c_def)
    show ?thesis
      unfolding l using IH [of "acc @ p @ c @ s"] IH [of "'''' @ p @ c @ s"] by simp
  qed
qed

text \<open>Running the loop over \<open>xs @ ys\<close> is running it over \<open>xs\<close> and then over \<open>ys\<close>.\<close>

lemma get_prompt_loop_append:
  "get_prompt_loop T ms i (xs @ ys) acc
   = get_prompt_loop T ms (i + length xs) ys (get_prompt_loop T ms i xs acc)"
  by (induction xs arbitrary: i acc) (auto simp add: Let_def split: prod.splits)

text \<open>The loop reads the message list only up to the index it has reached.\<close>

lemma get_prompt_loop_history:
  "i + length rest \<le> length pre \<Longrightarrow>
   get_prompt_loop T (pre @ ys) i rest acc = get_prompt_loop T pre i rest acc"
  by (induction rest arbitrary: i acc) (auto simp add: Let_def split: prod.splits)

text \<open>
  The prompt of a conversation starts with the prompt of each of its prefixes; what
  follows is what the loop appends for the later messages.
\<close>

lemma get_prompt_prefix:
  "get_prompt T (pre @ post)
   = get_prompt T pre @ get_prompt_loop T (pre @ post) (length pre) post ''''"
proof -
  have "get_prompt T (pre @ post)
        = get_prompt_loop T (pre @ post) (length pre) post
            (get_prompt_loop T (pre @ post) 0 pre '''')"
    by (simp add: get_prompt_def get_prompt_loop_append)
  also have "get_prompt_loop T (pre @ post) 0 pre '''' = get_prompt T pre"
    by (simp add: get_prompt_def get_prompt_loop_history)
  finally show ?thesis
    using get_prompt_loop_acc [of T "pre @ post" "length pre" post "get_prompt T pre"]
    by simp
qed

lemma get_prefix_and_suffix_plain:
  "style T = PLAIN \<Longrightarrow> get_prefix_and_suffix T r h = prefix_and_suffix_of T r"
  by (simp add: get_prefix_and_suffix_def split: prod.splits)

lemma get_prompt_loop_plain:
  "style T = PLAIN \<Longrightarrow> list_all (\<lambda>m. content m \<noteq> None) rest \<Longrightarrow>
   get_prompt_loop T ms i rest acc =
     acc @ concat (map (\<lambda>m. fst (prefix_and_suffix_of T (role m)) @ the (content m)
                         @ snd (prefix_and_suffix_of T (role m))) rest)"
proof (induction rest arbitrary: i acc)
  case Nil
  show ?case by simp
next
  case (Cons m rest)
  from Cons.prems obtain c where c: "content m = Some c" by auto
  show ?case
    using Cons.prems c
    by (simp add: Cons.IH Let_def get_prefix_and_suffix_plain format_content_def
        split: prod.splits)
qed

subsection \<open>The empty conversation\<close>

text \<open>
  C9: for every template, assembling the empty message list gives the empty string.
\<close>

theorem get_prompt_empty: "get_prompt T [] = ''''"
  by (simp add: get_prompt_def)

subsection \<open>The llama-2-chat example\<close>

text \<open>
  C2: the template \<open>llama-2-chat\<close> has no default system prompt, so over the messages
  system (content absent), user \<open>Hello!\<close>, assistant \<open>Hi!\<close> the system message is
  skipped, and the prompt is \<open>[INST] \<close>, \<open>Hello!\<close>, \<open> [/INST]\<close>, then \<open>Hi!\<close> with the
  suffix \<open> </s><s>\<close>.
\<close>

theorem get_prompt_llama2_absent_system:
  "default_system_prompt template_llama_2_chat = None
   \<and> get_prompt template_llama_2_chat
        [\<lparr>role = ''system'', content = None\<rparr>,
         \<lparr>role = ''user'', content = Some ''Hello!''\<rparr>,
         \<lparr>role = ''assistant'', content = Some ''Hi!''\<rparr>]
     = ''[INST] '' @ ''Hello!'' @ '' [/INST]'' @ ''Hi!'' @ '' </s><s>''"
  by (simp add: get_prompt_def template_llama_2_chat_def get_prefix_and_suffix_def
      prefix_and_suffix_of_def Let_def format_content_def)

subsection \<open>Suppression of the user prefix\<close>

text \<open>
  C3, as amended: for a template of style LLAMA2 and the message at index \<open>i\<close> of a
  conversation, a user message gets the pair \<open>("", suffix)\<close> exactly when it is the
  second message (\<open>i = 1\<close>) and the content of the first message is present; in every
  other position it gets the plain pair of the role \<open>user\<close>. The role of the first
  message is not looked at.
\<close>

theorem user_prefix_suppressed_at_second_message:
  assumes "style T = LLAMA2" and "i < length messages"
  shows "get_prefix_and_suffix T ''user'' (take i messages) =
    (if i = 1 \<and> content (messages ! 0) \<noteq> None
     then ('''', snd (prefix_and_suffix_of T ''user''))
     else prefix_and_suffix_of T ''user'')"
proof -
  obtain m rest where ms: "messages = m # rest"
    using assms(2) by (cases messages) auto
  show ?thesis
  proof (cases i)
    case 0
    then show ?thesis
      using assms(1) by (simp add: get_prefix_and_suffix_def split: prod.splits)
  next
    case (Suc j)
    show ?thesis
    proof (cases j)
      case 0
      then show ?thesis
        using assms(1) Suc ms by (simp add: get_prefix_and_suffix_def split: prod.splits)
    next
      case (Suc k)
      then obtain m' rest' where "rest = m' # rest'"
        using assms(2) ms \<open>i = Suc j\<close> by (cases rest) auto
      then show ?thesis
        using assms(1) Suc \<open>i = Suc j\<close> ms
        by (simp add: get_prefix_and_suffix_def split: prod.splits)
    qed
  qed
qed

text \<open>The second message of a conversation that opens with a system message.\<close>

theorem user_prefix_suppressed_at_second_message_witness:
  "style template_llama_2_chat = LLAMA2
   \<and> 1 < length [\<lparr>role = ''system'', content = Some ''Be brief.''\<rparr>,
                  \<lparr>role = ''user'', content = Some ''Hi''\<rparr>]
   \<and> get_prefix_and_suffix template_llama_2_chat ''user''
        (take 1 [\<lparr>role = ''system'', content = Some ''Be brief.''\<rparr>,
                 \<lparr>role = ''user'', content = Some ''Hi''\<rparr>])
      = ('''', '' [/INST]'')"
proof -
  have s: "style template_llama_2_chat = LLAMA2"
    by (simp add: template_llama_2_chat_def)
  have l: "1 < length [\<lparr>role = ''system'', content = Some ''Be brief.''\<rparr>,
                  \<lparr>role = ''user'', content = Some ''Hi''\<rparr>]"
    by simp
  show ?thesis
    using s l user_prefix_suppressed_at_second_message [OF s l]
    by (simp add: prefix_and_suffix_of_def template_llama_2_chat_def)
qed

text \<open>
  The suppression also happens when the first message is not a system message: after a
  first user message \<open>A\<close>, the second user message \<open>B\<close> is rendered without \<open>[INST] \<close>.
\<close>

theorem user_prefix_suppressed_after_user_counterexample:
  "style template_llama_2_chat = LLAMA2
   \<and> role \<lparr>role = ''user'', content = Some ''A''\<rparr> \<noteq> ''system''
   \<and> prefix_and_suffix_of template_llama_2_chat ''user'' = (''[INST] '', '' [/INST]'')
   \<and> get_prefix_and_suffix template_llama_2_chat ''user''
        [\<lparr>role = ''user'', content = Some ''A''\<rparr>] = ('''', '' [/INST]'')
   \<and> get_prompt template_llama_2_chat
        [\<lparr>role = ''user'', content = Some ''A''\<rparr>,
         \<lparr>role = ''user'', content = Some ''B''\<rparr>] = ''[INST] A [/INST]B [/INST]''"
  by (simp add: get_prompt_def template_llama_2_chat_def get_prefix_and_suffix_def
      prefix_and_suffix_of_def Let_def format_content_def)

subsection \<open>Templates of style PLAIN\<close>

text \<open>
  C4: for a template of style PLAIN and messages whose contents are all present, the
  prompt is the concatenation, in message order, of prefix, content and suffix of each
  message, the pair being the plain lookup of the message's role.
\<close>

theorem get_prompt_plain_concat:
  assumes "style T = PLAIN" and "list_all (\<lambda>m. content m \<noteq> None) messages"
  shows "get_prompt T messages
     = concat (map (\<lambda>m. fst (prefix_and_suffix_of T (role m)) @ the (content m)
                         @ snd (prefix_and_suffix_of T (role m))) messages)"
  using get_prompt_loop_plain [OF assms, of messages 0 "''''"]
  by (simp add: get_prompt_def)

text \<open>Four messages of mixed roles, the system message not first, under \<open>chatml\<close>.\<close>

theorem get_prompt_plain_concat_witness:
  "style template_chatml = PLAIN
   \<and> list_all (\<lambda>m. content m \<noteq> None)
        [\<lparr>role = ''user'', content = Some ''Hi''\<rparr>,
         \<lparr>role = ''system'', content = Some ''Be brief.''\<rparr>,
         \<lparr>role = ''user'', content = Some ''Bye''\<rparr>,
         \<lparr>role = ''assistant'', content = Some ''Ok''\<rparr>]
   \<and> get_prompt template_chatml
        [\<lparr>role = ''user'', content = Some ''Hi''\<rparr>,
         \<lparr>role = ''system'', content = Some ''Be brief.''\<rparr>,
         \<lparr>role = ''user'', content = Some ''Bye''\<rparr>,
         \<lparr>role = ''assistant'', content = Some ''Ok''\<rparr>]
     = ''<|im_start|>user\<newline>Hi<|im_end|>\<newline>''
       @ ''<|im_start|>system\<newline>Be brief.<|im_end|>\<newline>''
       @ ''<|im_start|>user\<newline>Bye<|im_end|>\<newline>''
       @ ''<|im_start|>assistant\<newline>Ok<|im_end|>\<newline>''"
proof -
  have s: "style template_chatml = PLAIN"
    by (simp add: template_chatml_def)
  have c: "list_all (\<lambda>m. content m \<noteq> None)
        [\<lparr>role = ''user'', content = Some ''Hi''\<rparr>,
         \<lparr>role = ''system'', content = Some ''Be brief.''\<rparr>,
         \<lparr>role = ''user'', content = Some ''Bye''\<rparr>,
         \<lparr>role = ''assistant'', content = Some ''Ok''\<rparr>]"
    by simp
  show ?thesis
    using s c get_prompt_plain_concat [OF s c]
    by (simp add: prefix_and_suffix_of_def template_chatml_def)
qed

subsection \<open>A system message without content\<close>

text \<open>
  C5: for every template and every system message \<open>m\<close> with absent content, at any
  place of a conversation \<open>pre @ m # post\<close>: the prompt is the prompt of the messages
  before \<open>m\<close>, then what \<open>m\<close> contributes, then what the loop appends for the messages after
  \<open>m\<close>. With a default system prompt \<open>d\<close> the contribution of \<open>m\<close> is prefix, \<open>d\<close>, suffix
  (the pair that \<open>get_prefix_and_suffix\<close> gives a system message after \<open>pre\<close>); without
  one it is empty: neither prefix nor suffix.
\<close>

theorem get_prompt_absent_system_content:
  assumes "role m = ''system''" and "content m = None"
  shows "get_prompt T (pre @ m # post)
    = get_prompt T pre
      @ (case default_system_prompt T of
           None \<Rightarrow> ''''
         | Some d \<Rightarrow> fst (get_prefix_and_suffix T ''system'' pre) @ d
                     @ snd (get_prefix_and_suffix T ''system'' pre))
      @ get_prompt_loop T (pre @ m # post) (Suc (length pre)) post ''''"
proof (cases "default_system_prompt T")
  case None
  then show ?thesis
    using assms by (simp add: get_prompt_prefix [of T pre "m # post"] Let_def)
next
  case (Some d)
  obtain a b where ab: "get_prefix_and_suffix T ''system'' pre = (a, b)"
    by (cases "get_prefix_and_suffix T ''system'' pre")
  have "get_prompt_loop T (pre @ m # post) (length pre) (m # post) ''''
        = get_prompt_loop T (pre @ m # post) (Suc (length pre)) post (a @ d @ b)"
    using assms Some ab by (simp add: Let_def format_content_def)
  also have "\<dots> = (a @ d @ b) @ get_prompt_loop T (pre @ m # post) (Suc (length pre)) post ''''"
    by (rule get_prompt_loop_acc)
  finally show ?thesis
    using Some ab by (simp add: get_prompt_prefix [of T pre "m # post"])
qed

text \<open>
  Under \<open>chatml-llava\<close>, whose default system prompt is \<open>Answer the questions.\<close>, and
  under \<open>llama-2-chat\<close>, which has none.
\<close>

theorem get_prompt_absent_system_content_witness:
  "role \<lparr>role = ''system'', content = None\<rparr> = ''system''
   \<and> content \<lparr>role = ''system'', content = None\<rparr> = None
   \<and> get_prompt template_chatml_llava
        ([\<lparr>role = ''user'', content = Some ''Hi''\<rparr>]
         @ \<lparr>role = ''system'', content = None\<rparr>
         # [\<lparr>role = ''assistant'', content = Some ''Ok''\<rparr>])
     = get_prompt template_chatml_llava [\<lparr>role = ''user'', content = Some ''Hi''\<rparr>]
       @ ''<|im_start|>system\<newline>Answer the questions.<|im_end|>\<newline>''
       @ ''<|im_start|>assistant\<newline>Ok<|im_end|>\<newline>''
   \<and> get_prompt template_llama_2_chat
        ([] @ \<lparr>role = ''system'', content = None\<rparr>
         # [\<lparr>role = ''user'', content = Some ''Hi''\<rparr>])
     = get_prompt template_llama_2_chat [] @ '''' @ ''[INST] Hi [/INST]''"
proof -
  have r: "role \<lparr>role = ''system'', content = None\<rparr> = ''system''"
    and c: "content \<lparr>role = ''system'', content = None\<rparr> = None"
    by simp_all
  have a: "get_prompt_loop template_chatml_llava
        ([\<lparr>role = ''user'', content = Some ''Hi''\<rparr>]
         @ \<lparr>role = ''system'', content = None\<rparr>
         # [\<lparr>role = ''assistant'', content = Some ''Ok''\<rparr>])
        (Suc (length [\<lparr>role = ''user'', content = Some ''Hi''\<rparr>]))
        [\<lparr>role = ''assistant'', content = Some ''Ok''\<rparr>] ''''
      = ''<|im_start|>assistant\<newline>Ok<|im_end|>\<newline>''"
    by (simp add: Let_def get_prefix_and_suffix_def prefix_and_suffix_of_def
        template_chatml_llava_def format_content_def)
  have b: "get_prompt_loop template_llama_2_chat
        ([] @ \<lparr>role = ''system'', content = None\<rparr>
         # [\<lparr>role = ''user'', content = Some ''Hi''\<rparr>])
        (Suc (length ([] :: message list)))
        [\<lparr>role = ''user'', content = Some ''Hi''\<rparr>] ''''
      = ''[INST] Hi [/INST]''"
    by (simp add: Let_def get_prefix_and_suffix_def prefix_and_suffix_of_def
        template_llama_2_chat_def format_content_def)
  have d: "default_system_prompt template_chatml_llava = Some ''Answer the questions.''"
    "default_system_prompt template_llama_2_chat = None"
    "get_prefix_and_suffix template_chatml_llava ''system''
       [\<lparr>role = ''user'', content = Some ''Hi''\<rparr>]
     = (''<|im_start|>system\<newline>'', ''<|im_end|>\<newline>'')"
    by (simp_all add: template_chatml_llava_def template_llama_2_chat_def
        get_prefix_and_suffix_def prefix_and_suffix_of_def)
  show ?thesis
    using get_prompt_absent_system_content [OF r c, of template_chatml_llava
        "[\<lparr>role = ''user'', content = Some ''Hi''\<rparr>]"
        "[\<lparr>role = ''assistant'', content = Some ''Ok''\<rparr>]"]
      get_prompt_absent_system_content [OF r c, of template_llama_2_chat "[]"
        "[\<lparr>role = ''user'', content = Some ''Hi''\<rparr>]"]
    unfolding a b d by simp
qed

section \<open>The template registry\<close>

lemma fold_register_lookup:
  "fold register_chat_template ts reg n =
   (case find (\<lambda>t. name t = n) (rev ts) of None \<Rightarrow> reg n | Some t \<Rightarrow> Some t)"
proof (induction ts rule: rev_induct)
  case Nil
  show ?case by simp
next
  case (snoc t ts)
  have "fold register_chat_template (ts @ [t]) reg n
        = (if n = name t then Some t else fold register_chat_template ts reg n)"
    by (simp add: register_chat_template_def [of t])
  then show ?case
    using snoc.IH by simp
qed

text \<open>
  C6: after any sequence \<open>ts\<close> of registrations into the empty registry,
  \<open>get_chat_template\<close> raises \<open>KeyError\<close> for a name exactly when no template of \<open>ts\<close>
  has that name, and otherwise returns the last template of \<open>ts\<close> with that name; and
  in any registry, looking up the name of a template just registered returns it.
\<close>

theorem get_chat_template_last_registered:
  "get_chat_template (fold register_chat_template ts Map.empty) n
     = (case find (\<lambda>t. name t = n) (rev ts) of
          None \<Rightarrow> Inl (KeyError n)
        | Some t \<Rightarrow> Inr t)
   \<and> get_chat_template (register_chat_template t reg) (name t) = Inr t"
proof
  show "get_chat_template (fold register_chat_template ts Map.empty) n
     = (case find (\<lambda>t. name t = n) (rev ts) of
          None \<Rightarrow> Inl (KeyError n)
        | Some t \<Rightarrow> Inr t)"
    by (simp add: get_chat_template_def fold_register_lookup split: option.splits)
  show "get_chat_template (register_chat_template t reg) (name t) = Inr t"
    by (simp add: get_chat_template_def register_chat_template_def)
qed

subsection \<open>The loaded registry\<close>

lemma template_names [simp]:
  "name template_default = ''default''"
  "name template_claude = ''claude''"
  "name template_chatml = ''chatml''"
  "name template_chatml_llava = ''chatml-llava''"
  "name template_vicuna_v1_1 = ''vicuna_v1.1''"
  "name template_llama_2_chat = ''llama-2-chat''"
  "name template_llama_3_instruct = ''llama-3-instruct''"
  "name template_yi = ''yi''"
  "name template_gemma_it = ''gemma-it''"
  "name template_dbrx_instruct = ''dbrx-instruct''"
  "name template_yt_chat_v1_2 = ''yt-chat-v1.2''"
  "name template_yt_chat_v1_3 = ''yt-chat-v1.3''"
  "name template_yt_chat_v1_6 = ''yt-chat-v1.6''"
  "name template_yt_chat_v1_7 = ''yt-chat-v1.7''"
  "name template_yt_chat_v1_8 = ''yt-chat-v1.8''"
  "name template_c4ai_command_r = ''c4ai-command-r''"
  by (simp_all add: template_default_def template_claude_def template_chatml_def
      template_chatml_llava_def template_vicuna_v1_1_def template_llama_2_chat_def
      template_llama_3_instruct_def template_yi_def template_gemma_it_def
      template_dbrx_instruct_def template_yt_chat_v1_2_def template_yt_chat_v1_3_def
      template_yt_chat_v1_6_def template_yt_chat_v1_7_def template_yt_chat_v1_8_def
      template_c4ai_command_r_def)

text \<open>Every name that a matching function or the fallback asks for is registered.\<close>

lemma registry_lookups:
  "get_chat_template chat_template_registry ''default'' = Inr template_default"
  "return_template chat_template_registry ''dbrx-instruct'' = Inr (Some template_dbrx_instruct)"
  "return_template chat_template_registry ''vicuna_v1.1'' = Inr (Some template_vicuna_v1_1)"
  "return_template chat_template_registry ''llama-2-chat'' = Inr (Some template_llama_2_chat)"
  "return_template chat_template_registry ''llama-3-instruct''
     = Inr (Some template_llama_3_instruct)"
  "return_template chat_template_registry ''chatml'' = Inr (Some template_chatml)"
  "return_template chat_template_registry ''chatml-llava'' = Inr (Some template_chatml_llava)"
  "return_template chat_template_registry ''yi'' = Inr (Some template_yi)"
  "return_template chat_template_registry ''gemma-it'' = Inr (Some template_gemma_it)"
  "return_template chat_template_registry ''yt-chat-v1.2'' = Inr (Some template_yt_chat_v1_2)"
  "return_template chat_template_registry ''yt-chat-v1.3'' = Inr (Some template_yt_chat_v1_3)"
  "return_template chat_template_registry ''yt-chat-v1.6'' = Inr (Some template_yt_chat_v1_6)"
  "return_template chat_template_registry ''yt-chat-v1.7'' = Inr (Some template_yt_chat_v1_7)"
  "return_template chat_template_registry ''yt-chat-v1.8'' = Inr (Some template_yt_chat_v1_8)"
  "return_template chat_template_registry ''c4ai-command-r''
     = Inr (Some template_c4ai_command_r)"
  by (simp_all add: return_template_def get_chat_template_def chat_template_registry_def
      builtin_templates_def register_chat_template_def)

section \<open>Resolution\<close>

lemmas matcher_defs = match_dbrx_def match_vicuna_def match_llama2_chat_def
  match_llama3_instruct_def match_chat_ml_def match_chat_yi_def match_gemma_it_def
  match_ytchat_v12_def

lemma matching_function_registry_list:
  "matching_function_registry u =
   [match_dbrx u, match_vicuna u, match_llama2_chat u, match_llama3_instruct u,
    match_chat_ml u, match_chat_yi u, match_gemma_it u, match_ytchat_v12 u]"
  by (simp add: matching_function_registry_def register_chat_template_matching_function_def)

subsection \<open>The loop over the matching functions\<close>

lemma resolve_loop_all_none:
  "list_all (\<lambda>f. f reg p i = Inr None) fs \<Longrightarrow>
   get_chat_template_by_model_path reg fs p i = get_chat_template reg ''default''"
  by (induction fs) auto

lemma resolve_loop_invariant:
  "get_chat_template reg ''default'' = Inr d \<Longrightarrow> P d \<Longrightarrow>
   list_all (\<lambda>f. f reg p i = Inr None \<or> (\<exists>t. f reg p i = Inr (Some t) \<and> P t)) fs \<Longrightarrow>
   \<exists>t. get_chat_template_by_model_path reg fs p i = Inr t \<and> P t"
proof (induction fs)
  case Nil
  then show ?case by simp
next
  case (Cons f fs)
  from Cons.prems(3) have
    "f reg p i = Inr None \<or> (\<exists>t. f reg p i = Inr (Some t) \<and> P t)" by simp
  then show ?case
  proof
    assume "f reg p i = Inr None"
    then show ?thesis using Cons by simp
  next
    assume "\<exists>t. f reg p i = Inr (Some t) \<and> P t"
    then show ?thesis by auto
  qed
qed

subsection \<open>What each matching function can return\<close>

lemma match_dbrx_result:
  "match_dbrx u chat_template_registry p i = Inr None
   \<or> match_dbrx u chat_template_registry p i = Inr (Some template_dbrx_instruct)"
  by (simp add: match_dbrx_def registry_lookups)

lemma match_vicuna_result:
  "match_vicuna u chat_template_registry p i = Inr None
   \<or> match_vicuna u chat_template_registry p i = Inr (Some template_vicuna_v1_1)"
  by (simp add: match_vicuna_def registry_lookups)

lemma match_llama2_chat_result:
  "match_llama2_chat u chat_template_registry p i = Inr None
   \<or> match_llama2_chat u chat_template_registry p i = Inr (Some template_llama_2_chat)"
  by (simp add: match_llama2_chat_def registry_lookups Let_def)

lemma match_llama3_instruct_result:
  "match_llama3_instruct u chat_template_registry p i = Inr None
   \<or> match_llama3_instruct u chat_template_registry p i = Inr (Some template_llama_3_instruct)"
  by (simp add: match_llama3_instruct_def registry_lookups Let_def)

lemma match_chat_ml_result:
  "match_chat_ml u chat_template_registry p i = Inr None
   \<or> match_chat_ml u chat_template_registry p i = Inr (Some template_chatml)
   \<or> match_chat_ml u chat_template_registry p i = Inr (Some template_chatml_llava)"
  by (simp add: match_chat_ml_def registry_lookups Let_def)

lemma match_chat_yi_result:
  "match_chat_yi u chat_template_registry p i = Inr None
   \<or> match_chat_yi u chat_template_registry p i = Inr (Some template_yi)"
  by (simp add: match_chat_yi_def registry_lookups Let_def)

lemma match_gemma_it_result:
  "match_gemma_it u chat_template_registry p i = Inr None
   \<or> match_gemma_it u chat_template_registry p i = Inr (Some template_gemma_it)"
  by (simp add: match_gemma_it_def registry_lookups Let_def)

lemma match_ytchat_v12_result:
  "match_ytchat_v12 u chat_template_registry p i = Inr None
   \<or> match_ytchat_v12 u chat_template_registry p i = Inr (Some template_yt_chat_v1_2)
   \<or> match_ytchat_v12 u chat_template_registry p i = Inr (Some template_yt_chat_v1_3)
   \<or> match_ytchat_v12 u chat_template_registry p i = Inr (Some template_yt_chat_v1_6)
   \<or> match_ytchat_v12 u chat_template_registry p i = Inr (Some template_yt_chat_v1_7)
   \<or> match_ytchat_v12 u chat_template_registry p i = Inr (Some template_yt_chat_v1_8)"
  by (simp add: match_ytchat_v12_def registry_lookups Let_def)

text \<open>
  No registered matching function raises, and none returns the template
  \<open>c4ai-command-r\<close>.
\<close>

lemma builtin_matchers_results:
  "list_all (\<lambda>f. f chat_template_registry p i = Inr None
        \<or> (\<exists>t. f chat_template_registry p i = Inr (Some t) \<and> name t \<noteq> ''c4ai-command-r''))
     (matching_function_registry u)"
proof -
  have "match_dbrx u chat_template_registry p i = Inr None
      \<or> (\<exists>t. match_dbrx u chat_template_registry p i = Inr (Some t)
              \<and> name t \<noteq> ''c4ai-command-r'')"
    using match_dbrx_result [of u p i] by auto
  moreover have "match_vicuna u chat_template_registry p i = Inr None
      \<or> (\<exists>t. match_vicuna u chat_template_registry p i = Inr (Some t)
              \<and> name t \<noteq> ''c4ai-command-r'')"
    using match_vicuna_result [of u p i] by auto
  moreover have "match_llama2_chat u chat_template_registry p i = Inr None
      \<or> (\<exists>t. match_llama2_chat u chat_template_registry p i = Inr (Some t)
              \<and> name t \<noteq> ''c4ai-command-r'')"
    using match_llama2_chat_result [of u p i] by auto
  moreover have "match_llama3_instruct u chat_template_registry p i = Inr None
      \<or> (\<exists>t. match_llama3_instruct u chat_template_registry p i = Inr (Some t)
              \<and> name t \<noteq> ''c4ai-command-r'')"
    using match_llama3_instruct_result [of u p i] by auto
  moreover have "match_chat_ml u chat_template_registry p i = Inr None
      \<or> (\<exists>t. match_chat_ml u chat_template_registry p i = Inr (Some t)
              \<and> name t \<noteq> ''c4ai-command-r'')"
    using match_chat_ml_result [of u p i] by auto
  moreover have "match_chat_yi u chat_template_registry p i = Inr None
      \<or> (\<exists>t. match_chat_yi u chat_template_registry p i = Inr (Some t)
              \<and> name t \<noteq> ''c4ai-command-r'')"
    using match_chat_yi_result [of u p i] by auto
  moreover have "match_gemma_it u chat_template_registry p i = Inr None
      \<or> (\<exists>t. match_gemma_it u chat_template_registry p i = Inr (Some t)
              \<and> name t \<noteq> ''c4ai-command-r'')"
    using match_gemma_it_result [of u p i] by auto
  moreover have "match_ytchat_v12 u chat_template_registry p i = Inr None
      \<or> (\<exists>t. match_ytchat_v12 u chat_template_registry p i = Inr (Some t)
              \<and> name t \<noteq> ''c4ai-command-r'')"
    using match_ytchat_v12_result [of u p i] by auto
  ultimately show ?thesis
    unfolding matching_function_registry_list by simp
qed

lemma resolve_never_c4ai:
  "\<exists>t. resolve u model_path model_id = Inr t \<and> name t \<noteq> ''c4ai-command-r''"
  unfolding resolve_def
  by (rule resolve_loop_invariant [OF registry_lookups(1) _ builtin_matchers_results]) simp

lemma resolve_fallback:
  assumes "list_all (\<lambda>f. f chat_template_registry model_path model_id = Inr None)
          (matching_function_registry u)"
  shows "resolve u model_path model_id = Inr template_default"
  unfolding resolve_def using resolve_loop_all_none [OF assms] by (simp add: registry_lookups(1))

text \<open>Paths that no registered matching function recognises.\<close>

lemma gpt2_unrecognised:
  "list_all (\<lambda>f. f chat_template_registry ''gpt2'' None = Inr None)
        (matching_function_registry u)"
  by (simp add: matching_function_registry_list matcher_defs lower_gpt2 truthy_def Let_def)

lemma c4ai_unrecognised:
  "list_all (\<lambda>f. f chat_template_registry ''c4ai-command-r'' None = Inr None)
        (matching_function_registry u)"
  by (simp add: matching_function_registry_list matcher_defs lower_c4ai truthy_def Let_def)

lemma cohere_unrecognised:
  "list_all (\<lambda>f. f chat_template_registry ''CohereForAI/c4ai-command-r-v01'' None = Inr None)
        (matching_function_registry u)"
  by (simp add: matching_function_registry_list matcher_defs lower_cohere truthy_def Let_def)

lemma c4ai_matcher_matches:
  "match_c4ai_command_r u chat_template_registry ''c4ai-command-r'' None
     = Inr (Some template_c4ai_command_r)"
  by (simp add: match_c4ai_command_r_def lower_c4ai truthy_def Let_def registry_lookups)

lemma c4ai_matcher_unregistered:
  "match_c4ai_command_r u \<notin> set (matching_function_registry u)"
proof
  assume "match_c4ai_command_r u \<in> set (matching_function_registry u)"
  with c4ai_unrecognised [of u]
  have "match_c4ai_command_r u chat_template_registry ''c4ai-command-r'' None = Inr None"
    by (simp add: list_all_iff)
  then show False by (simp add: c4ai_matcher_matches)
qed

subsection \<open>Resolution never fails\<close>

text \<open>
  C7: for every model path and every model id, absent or present, resolution against the
  loaded module returns a template and raises nothing; when no registered matching
  function returns a template, the result is the template registered as \<open>default\<close>.
\<close>

theorem resolve_never_fails:
  "(\<exists>t. resolve u model_path model_id = Inr t)
   \<and> (list_all (\<lambda>f. f chat_template_registry model_path model_id = Inr None)
         (matching_function_registry u)
       \<longrightarrow> resolve u model_path model_id = Inr template_default)
   \<and> get_chat_template chat_template_registry ''default'' = Inr template_default"
proof (intro conjI impI)
  from resolve_never_c4ai [of u model_path model_id]
  obtain t where "resolve u model_path model_id = Inr t" by (elim exE conjE)
  then show "\<exists>t. resolve u model_path model_id = Inr t" ..
next
  assume "list_all (\<lambda>f. f chat_template_registry model_path model_id = Inr None)
        (matching_function_registry u)"
  then show "resolve u model_path model_id = Inr template_default"
    by (rule resolve_fallback)
next
  show "get_chat_template chat_template_registry ''default'' = Inr template_default"
    by (rule registry_lookups)
qed

text \<open>The unrecognised path \<open>gpt2\<close> with no model id resolves to \<open>default\<close>.\<close>

theorem resolve_never_fails_witness:
  "list_all (\<lambda>f. f chat_template_registry ''gpt2'' None = Inr None)
        (matching_function_registry keep_non_ascii)
   \<and> resolve keep_non_ascii ''gpt2'' None = Inr template_default"
proof -
  have h: "list_all (\<lambda>f. f chat_template_registry ''gpt2'' None = Inr None)
        (matching_function_registry keep_non_ascii)"
    by (rule gpt2_unrecognised)
  from resolve_never_fails [of keep_non_ascii "''gpt2''" None]
  have "list_all (\<lambda>f. f chat_template_registry ''gpt2'' None = Inr None)
        (matching_function_registry keep_non_ascii)
      \<longrightarrow> resolve keep_non_ascii ''gpt2'' None = Inr template_default"
    by (elim conjE)
  with h show ?thesis by simp
qed

subsection \<open>Case-insensitive path tests\<close>

text \<open>A path enters every registered matching function only through its lowered form.\<close>

lemma matchers_lowered:
  assumes "lower u p = lower u q"
  shows "match_dbrx u reg p i = match_dbrx u reg q i"
    "match_vicuna u reg p i = match_vicuna u reg q i"
    "match_llama2_chat u reg p i = match_llama2_chat u reg q i"
    "match_llama3_instruct u reg p i = match_llama3_instruct u reg q i"
    "match_chat_ml u reg p i = match_chat_ml u reg q i"
    "match_chat_yi u reg p i = match_chat_yi u reg q i"
    "match_gemma_it u reg p i = match_gemma_it u reg q i"
    "match_ytchat_v12 u reg p i = match_ytchat_v12 u reg q i"
  by (simp_all only: matcher_defs assms)

lemma resolve_lowered:
  assumes "lower u p = lower u q"
  shows "resolve u p i = resolve u q i"
  by (simp only: resolve_def matching_function_registry_list
      get_chat_template_by_model_path.simps matchers_lowered [OF assms])

text \<open>
  C8: the path \<open>Qwen-Chat-7B\<close> with no model id resolves to the template \<open>chatml\<close>: the
  substring tests run on the lowered path \<open>qwen-chat-7b\<close>. The substring tests of all
  registered matching functions are case-insensitive: two paths with the same lowered
  form resolve alike under every model id, and so do two ASCII paths that differ only
  in the case of their letters.
\<close>

theorem resolve_path_case_insensitive:
  "resolve u ''Qwen-Chat-7B'' None = Inr template_chatml
   \<and> name template_chatml = ''chatml''
   \<and> lower u ''Qwen-Chat-7B'' = ''qwen-chat-7b''
   \<and> (lower u p = lower u q \<longrightarrow> resolve u p i = resolve u q i)
   \<and> (list_all (\<lambda>c. \<not> digit7 c) p \<and> list_all (\<lambda>c. \<not> digit7 c) q
        \<and> map ascii_lower p = map ascii_lower q
       \<longrightarrow> resolve u p i = resolve u q i)"
proof (intro conjI impI)
  show "resolve u ''Qwen-Chat-7B'' None = Inr template_chatml"
    by (simp add: resolve_def matching_function_registry_list lower_qwen registry_lookups
      match_dbrx_def match_vicuna_def match_llama2_chat_def match_llama3_instruct_def
      match_chat_ml_def truthy_def Let_def)
next
  show "name template_chatml = ''chatml''" by simp
next
  show "lower u ''Qwen-Chat-7B'' = ''qwen-chat-7b''" by (rule lower_qwen)
next
  assume "lower u p = lower u q"
  then show "resolve u p i = resolve u q i" by (rule resolve_lowered)
next
  assume a: "list_all (\<lambda>c. \<not> digit7 c) p \<and> list_all (\<lambda>c. \<not> digit7 c) q
        \<and> map ascii_lower p = map ascii_lower q"
  then have "lower u p = map ascii_lower p" and "lower u q = map ascii_lower q"
    by (simp_all add: lower_def lower_ascii)
  with a have "lower u p = lower u q" by simp
  then show "resolve u p i = resolve u q i" by (rule resolve_lowered)
qed

text \<open>The paths \<open>Qwen-Chat-7B\<close> and \<open>QWEN-chat-7b\<close> both resolve to \<open>chatml\<close>.\<close>

theorem resolve_path_case_insensitive_witness:
  "lower keep_non_ascii ''Qwen-Chat-7B'' = lower keep_non_ascii ''QWEN-chat-7b''
   \<and> list_all (\<lambda>c. \<not> digit7 c) ''Qwen-Chat-7B''
   \<and> list_all (\<lambda>c. \<not> digit7 c) ''QWEN-chat-7b''
   \<and> map ascii_lower ''Qwen-Chat-7B'' = map ascii_lower ''QWEN-chat-7b''
   \<and> resolve keep_non_ascii ''Qwen-Chat-7B'' None = resolve keep_non_ascii ''QWEN-chat-7b'' None
   \<and> resolve keep_non_ascii ''QWEN-chat-7b'' None = Inr template_chatml"
proof -
  have h: "lower keep_non_ascii ''Qwen-Chat-7B'' = lower keep_non_ascii ''QWEN-chat-7b''"
    by (simp only: lower_qwen lower_qwen_upper)
  have a: "list_all (\<lambda>c. \<not> digit7 c) ''Qwen-Chat-7B''"
    "list_all (\<lambda>c. \<not> digit7 c) ''QWEN-chat-7b''"
    "map ascii_lower ''Qwen-Chat-7B'' = map ascii_lower ''QWEN-chat-7b''"
    by (simp_all add: ascii_lower_def)
  note t = resolve_path_case_insensitive
    [of keep_non_ascii "''Qwen-Chat-7B''" "''QWEN-chat-7b''" None]
  from t have 1: "resolve keep_non_ascii ''Qwen-Chat-7B'' None = Inr template_chatml"
    by (elim conjE)
  from t have "lower keep_non_ascii ''Qwen-Chat-7B'' = lower keep_non_ascii ''QWEN-chat-7b''
      \<longrightarrow> resolve keep_non_ascii ''Qwen-Chat-7B'' None
           = resolve keep_non_ascii ''QWEN-chat-7b'' None"
    by (elim conjE)
  with h have 2: "resolve keep_non_ascii ''Qwen-Chat-7B'' None
           = resolve keep_non_ascii ''QWEN-chat-7b'' None"
    by (rule rev_mp)
  from 1 2 have 3: "resolve keep_non_ascii ''QWEN-chat-7b'' None = Inr template_chatml"
    by simp
  from h a 2 3 show ?thesis by (intro conjI)
qed

subsection \<open>The model id \<open>llama-3\<close>\<close>

lemma llama_3_instruct_distinct:
  "template_llama_3_instruct \<noteq> template_dbrx_instruct"
  "template_llama_3_instruct \<noteq> template_vicuna_v1_1"
  "template_llama_3_instruct \<noteq> template_llama_2_chat"
proof -
  show "template_llama_3_instruct \<noteq> template_dbrx_instruct"
  proof
    assume "template_llama_3_instruct = template_dbrx_instruct"
    then have "name template_llama_3_instruct = name template_dbrx_instruct" by (rule arg_cong)
    then show False by simp
  qed
  show "template_llama_3_instruct \<noteq> template_vicuna_v1_1"
  proof
    assume "template_llama_3_instruct = template_vicuna_v1_1"
    then have "name template_llama_3_instruct = name template_vicuna_v1_1" by (rule arg_cong)
    then show False by simp
  qed
  show "template_llama_3_instruct \<noteq> template_llama_2_chat"
  proof
    assume "template_llama_3_instruct = template_llama_2_chat"
    then have "name template_llama_3_instruct = name template_llama_2_chat" by (rule arg_cong)
    then show False by simp
  qed
qed

text \<open>
  C1, as amended: with the model id \<open>llama-3\<close>, the first matching function in
  registration order that recognises the model path decides. Resolution returns
  \<open>dbrx-instruct\<close> when the lowered path contains \<open>dbrx\<close> and \<open>instruct\<close>; otherwise
  \<open>vicuna_v1.1\<close> when it contains \<open>vicuna\<close> or \<open>llava-v1.5\<close>; otherwise \<open>llama-2-chat\<close>
  when it contains \<open>llama-2\<close> with \<open>chat\<close>, or \<open>mistral\<close> or \<open>mixtral\<close> with \<open>instruct\<close>,
  or \<open>codellama\<close> with \<open>instruct\<close>; and otherwise \<open>llama-3-instruct\<close>. So it returns
  \<open>llama-3-instruct\<close> exactly for the paths that none of the matching functions
  registered before \<open>match_llama3_instruct\<close> recognises.
\<close>

theorem resolve_llama3_id_first_match_wins:
  "resolve u p (Some ''llama-3'') =
     (if str_in ''dbrx'' (lower u p) \<and> str_in ''instruct'' (lower u p) then
        Inr template_dbrx_instruct
      else if str_in ''vicuna'' (lower u p) \<or> str_in ''llava-v1.5'' (lower u p) then
        Inr template_vicuna_v1_1
      else if (str_in ''llama-2'' (lower u p) \<and> str_in ''chat'' (lower u p))
              \<or> ((str_in ''mistral'' (lower u p) \<or> str_in ''mixtral'' (lower u p))
                  \<and> str_in ''instruct'' (lower u p))
              \<or> (str_in ''codellama'' (lower u p) \<and> str_in ''instruct'' (lower u p)) then
        Inr template_llama_2_chat
      else Inr template_llama_3_instruct)
   \<and> (resolve u p (Some ''llama-3'') = Inr template_llama_3_instruct
        \<longleftrightarrow> \<not> (str_in ''dbrx'' (lower u p) \<and> str_in ''instruct'' (lower u p))
          \<and> \<not> str_in ''vicuna'' (lower u p)
          \<and> \<not> str_in ''llava-v1.5'' (lower u p)
          \<and> \<not> (str_in ''llama-2'' (lower u p) \<and> str_in ''chat'' (lower u p))
          \<and> \<not> ((str_in ''mistral'' (lower u p) \<or> str_in ''mixtral'' (lower u p))
                 \<and> str_in ''instruct'' (lower u p))
          \<and> \<not> (str_in ''codellama'' (lower u p) \<and> str_in ''instruct'' (lower u p)))"
proof
  have 1: "match_dbrx u chat_template_registry p (Some ''llama-3'') =
      (if str_in ''dbrx'' (lower u p) \<and> str_in ''instruct'' (lower u p)
       then Inr (Some template_dbrx_instruct) else Inr None)"
    by (simp add: match_dbrx_def truthy_def registry_lookups)
  have 2: "match_vicuna u chat_template_registry p (Some ''llama-3'') =
      (if str_in ''vicuna'' (lower u p) \<or> str_in ''llava-v1.5'' (lower u p)
       then Inr (Some template_vicuna_v1_1) else Inr None)"
    by (simp add: match_vicuna_def truthy_def registry_lookups)
  have 3: "match_llama2_chat u chat_template_registry p (Some ''llama-3'') =
      (if (str_in ''llama-2'' (lower u p) \<and> str_in ''chat'' (lower u p))
              \<or> ((str_in ''mistral'' (lower u p) \<or> str_in ''mixtral'' (lower u p))
                  \<and> str_in ''instruct'' (lower u p))
              \<or> (str_in ''codellama'' (lower u p) \<and> str_in ''instruct'' (lower u p))
       then Inr (Some template_llama_2_chat) else Inr None)"
    by (auto simp add: match_llama2_chat_def truthy_def registry_lookups Let_def)
  have 4: "match_llama3_instruct u chat_template_registry p (Some ''llama-3'')
           = Inr (Some template_llama_3_instruct)"
    by (simp add: match_llama3_instruct_def truthy_def registry_lookups)
  show chain: "resolve u p (Some ''llama-3'') =
     (if str_in ''dbrx'' (lower u p) \<and> str_in ''instruct'' (lower u p) then
        Inr template_dbrx_instruct
      else if str_in ''vicuna'' (lower u p) \<or> str_in ''llava-v1.5'' (lower u p) then
        Inr template_vicuna_v1_1
      else if (str_in ''llama-2'' (lower u p) \<and> str_in ''chat'' (lower u p))
              \<or> ((str_in ''mistral'' (lower u p) \<or> str_in ''mixtral'' (lower u p))
                  \<and> str_in ''instruct'' (lower u p))
              \<or> (str_in ''codellama'' (lower u p) \<and> str_in ''instruct'' (lower u p)) then
        Inr template_llama_2_chat
      else Inr template_llama_3_instruct)"
    unfolding resolve_def matching_function_registry_list
    by (auto simp add: 1 2 3 4)
  show "resolve u p (Some ''llama-3'') = Inr template_llama_3_instruct
        \<longleftrightarrow> \<not> (str_in ''dbrx'' (lower u p) \<and> str_in ''instruct'' (lower u p))
          \<and> \<not> str_in ''vicuna'' (lower u p)
          \<and> \<not> str_in ''llava-v1.5'' (lower u p)
          \<and> \<not> (str_in ''llama-2'' (lower u p) \<and> str_in ''chat'' (lower u p))
          \<and> \<not> ((str_in ''mistral'' (lower u p) \<or> str_in ''mixtral'' (lower u p))
                 \<and> str_in ''instruct'' (lower u p))
          \<and> \<not> (str_in ''codellama'' (lower u p) \<and> str_in ''instruct'' (lower u p))"
    unfolding chain using llama_3_instruct_distinct by auto
qed

text \<open>
  The path \<open>Meta-Llama-3-8B\<close>, which no earlier matching function recognises, and the
  paths \<open>dbrx-instruct\<close> and \<open>Mistral-7B-Instruct\<close>, which \<open>match_dbrx\<close> and
  \<open>match_llama2_chat\<close> recognise.
\<close>

theorem resolve_llama3_id_first_match_wins_witness:
  "resolve keep_non_ascii ''Meta-Llama-3-8B'' (Some ''llama-3'') = Inr template_llama_3_instruct
   \<and> resolve keep_non_ascii ''dbrx-instruct'' (Some ''llama-3'') = Inr template_dbrx_instruct
   \<and> resolve keep_non_ascii ''Mistral-7B-Instruct'' (Some ''llama-3'')
       = Inr template_llama_2_chat"
  using resolve_llama3_id_first_match_wins [of keep_non_ascii "''Meta-Llama-3-8B''"]
    resolve_llama3_id_first_match_wins [of keep_non_ascii "''dbrx-instruct''"]
    resolve_llama3_id_first_match_wins [of keep_non_ascii "''Mistral-7B-Instruct''"]
  by (simp add: lower_meta lower_dbrx_instruct lower_mistral)

text \<open>
  With the model id \<open>llama-3\<close> and the path \<open>vicuna\<close>, the earlier \<open>match_vicuna\<close>
  answers first: the result is the template \<open>vicuna_v1.1\<close>, not \<open>llama-3-instruct\<close>.
\<close>

theorem resolve_llama3_id_vicuna_path_counterexample:
  "resolve keep_non_ascii ''vicuna'' (Some ''llama-3'') = Inr template_vicuna_v1_1
   \<and> name template_vicuna_v1_1 = ''vicuna_v1.1''
   \<and> name template_vicuna_v1_1 \<noteq> ''llama-3-instruct''"
  by (simp add: resolve_def matching_function_registry_list match_dbrx_def match_vicuna_def
      truthy_def lower_vicuna registry_lookups)

subsection \<open>The template \<open>c4ai-command-r\<close>\<close>

text \<open>
  C10: the path \<open>c4ai-command-r\<close> with no model id resolves to the template \<open>default\<close>,
  and so does every path that contains \<open>c4ai-command-r\<close> and that no registered
  matching function recognises. \<open>match_c4ai_command_r\<close> is not in the list of matching
  functions, the template \<open>c4ai-command-r\<close> is registered, and resolution returns it
  for no model path and no model id.
\<close>

theorem resolve_c4ai_command_r_default:
  "resolve u ''c4ai-command-r'' None = Inr template_default
   \<and> (str_in ''c4ai-command-r'' (lower u p)
        \<and> list_all (\<lambda>f. f chat_template_registry p None = Inr None)
              (matching_function_registry u)
       \<longrightarrow> resolve u p None = Inr template_default)
   \<and> match_c4ai_command_r u \<notin> set (matching_function_registry u)
   \<and> get_chat_template chat_template_registry ''c4ai-command-r''
        = Inr template_c4ai_command_r
   \<and> (\<exists>t. resolve u p i = Inr t \<and> name t \<noteq> ''c4ai-command-r'')"
proof (intro conjI impI)
  show "resolve u ''c4ai-command-r'' None = Inr template_default"
    by (rule resolve_fallback [OF c4ai_unrecognised])
next
  assume "str_in ''c4ai-command-r'' (lower u p)
        \<and> list_all (\<lambda>f. f chat_template_registry p None = Inr None)
              (matching_function_registry u)"
  then show "resolve u p None = Inr template_default"
    by (intro resolve_fallback) (elim conjE)
next
  show "match_c4ai_command_r u \<notin> set (matching_function_registry u)"
    by (rule c4ai_matcher_unregistered)
next
  show "get_chat_template chat_template_registry ''c4ai-command-r''
        = Inr template_c4ai_command_r"
    by (simp add: get_chat_template_def chat_template_registry_def builtin_templates_def
        register_chat_template_def)
next
  show "\<exists>t. resolve u p i = Inr t \<and> name t \<noteq> ''c4ai-command-r''"
    by (rule resolve_never_c4ai)
qed

text \<open>The path \<open>CohereForAI/c4ai-command-r-v01\<close>.\<close>

theorem resolve_c4ai_command_r_default_witness:
  "str_in ''c4ai-command-r'' (lower keep_non_ascii ''CohereForAI/c4ai-command-r-v01'')
   \<and> list_all (\<lambda>f. f chat_template_registry ''CohereForAI/c4ai-command-r-v01'' None
                    = Inr None) (matching_function_registry keep_non_ascii)
   \<and> resolve keep_non_ascii ''CohereForAI/c4ai-command-r-v01'' None = Inr template_default"
proof -
  have h: "str_in ''c4ai-command-r'' (lower keep_non_ascii ''CohereForAI/c4ai-command-r-v01'')
   \<and> list_all (\<lambda>f. f chat_template_registry ''CohereForAI/c4ai-command-r-v01'' None
                    = Inr None) (matching_function_registry keep_non_ascii)"
    by (simp add: lower_cohere cohere_unrecognised)
  from resolve_c4ai_command_r_default [of keep_non_ascii "''CohereForAI/c4ai-command-r-v01''" None]
  have "str_in ''c4ai-command-r'' (lower keep_non_ascii ''CohereForAI/c4ai-command-r-v01'')
        \<and> list_all (\<lambda>f. f chat_template_registry ''CohereForAI/c4ai-command-r-v01'' None
                         = Inr None) (matching_function_registry keep_non_ascii)
       \<longrightarrow> resolve keep_non_ascii ''CohereForAI/c4ai-command-r-v01'' None
            = Inr template_default"
    by (elim conjE)
  with h show ?thesis by (simp only: simp_thms)
qed

end
